theory Spec2Isabelle
  imports Main
begin

section \<open>The document tree read by the wrapper class\<close>

text \<open>
  The wrapper class \<open>HTMLElement\<close> of \<open>AnyElement.ts\<close> holds a reference to a native
  element. Native elements are objects of the host document: they are shared, they are
  compared by identity, and \<open>parentElement\<close> is a reference to another such object or
  \<open>null\<close>. The model is an explicit store from references to the attributes of the
  element that the embedded methods read or write.
\<close>

type_synonym ref = nat

text \<open>
  The attributes of a native element used by the embedded code: \<open>id\<close> (named
  \<open>id_attr\<close> here, \<open>id\<close> being the identity function of HOL), \<open>tagName\<close>, the tokens of
  \<open>classList\<close> in their order, and \<open>parentElement\<close> with \<open>None\<close> for \<open>null\<close>.
\<close>

record Element =
  id_attr :: string
  tagName :: string
  classList :: "string list"
  parentElement :: "ref option"

type_synonym dom = "ref \<Rightarrow> Element"

text \<open>The wrapper: \<open>public readonly element: T\<close>, set by the constructor.\<close>

datatype HTMLElement = HTMLElement (element: ref)

text \<open>
  The keys that the three public entry points pass as \<open>property\<close> to the private
  recursive method: \<open>"id"\<close>, \<open>"tagName"\<close> and \<open>"classList"\<close>.
\<close>

datatype property = P_id | P_tagName | P_classList

text \<open>
  The values that \<open>element[property]\<close> yields for these keys: a string primitive for
  \<open>id\<close> and \<open>tagName\<close>, a \<open>DOMTokenList\<close> object for \<open>classList\<close>.
\<close>

datatype jsval = JString string | JTokenList "string list"

datatype error = TypeError

fun get_property :: "Element \<Rightarrow> property \<Rightarrow> jsval" where
  "get_property e P_id = JString (id_attr e)"
| "get_property e P_tagName = JString (tagName e)"
| "get_property e P_classList = JTokenList (classList e)"

text \<open>The operator \<open>typeof\<close> on the two kinds of value.\<close>

fun typeof :: "jsval \<Rightarrow> string" where
  "typeof (JString s) = ''string''"
| "typeof (JTokenList ts) = ''object''"

text \<open>
  The expression \<open>"contains" in v\<close>. The operator \<open>in\<close> requires an object as its right
  operand and throws a \<open>TypeError\<close> on a primitive; \<open>DOMTokenList\<close> has the method
  \<open>contains\<close> on its prototype.
\<close>

fun contains_in :: "jsval \<Rightarrow> error + bool" where
  "contains_in (JString s) = Inl TypeError"
| "contains_in (JTokenList ts) = Inr True"

text \<open>
  The call \<open>(<DOMTokenList>v).contains(condition)\<close>, reached only after
  \<open>"contains" in v\<close> has been evaluated to true, hence on a token list. A string has no
  such method, which is again a \<open>TypeError\<close>.
\<close>

fun contains :: "jsval \<Rightarrow> string \<Rightarrow> error + bool" where
  "contains (JTokenList ts) c = Inr (c \<in> set ts)"
| "contains (JString s) c = Inl TypeError"

section \<open>The ancestor search\<close>

text \<open>
  A call returns a wrapper or \<open>null\<close> (\<open>Inr\<close>) or throws (\<open>Inl\<close>), together with the
  document as the call leaves it. The store need not be a tree, so the recursion along
  \<open>parentElement\<close> may go on forever: the result \<open>None\<close> stands for a call that does not
  return. The parameter \<open>element\<close> of the source is \<open>elem\<close> here, \<open>element\<close> being the
  field of the wrapper.
\<close>

type_synonym outcome = "(error + HTMLElement option) \<times> dom"

partial_function (option) getAncestorByClassRecursive ::
  "string \<Rightarrow> property \<Rightarrow> ref \<Rightarrow> dom \<Rightarrow> outcome option" where
  "getAncestorByClassRecursive condition property elem d =
     (let v = get_property (d elem) property in
      if typeof v = ''string'' \<and> v = JString condition then
        Some (Inr (Some (HTMLElement elem)), d)
      else
        (case contains_in v of
           Inl err \<Rightarrow> Some (Inl err, d)
         | Inr has \<Rightarrow>
            (case (if has then contains v condition else Inr False) of
               Inl err \<Rightarrow> Some (Inl err, d)
             | Inr found \<Rightarrow>
                if found then Some (Inr (Some (HTMLElement elem)), d)
                else
                  (case parentElement (d elem) of
                     Some parent \<Rightarrow> getAncestorByClassRecursive condition property parent d
                   | None \<Rightarrow> Some (Inr None, d)))))"

definition getAncestorById :: "HTMLElement \<Rightarrow> string \<Rightarrow> dom \<Rightarrow> outcome option" where
  "getAncestorById this ident d = getAncestorByClassRecursive ident P_id (element this) d"

definition getAncestorByTag :: "HTMLElement \<Rightarrow> string \<Rightarrow> dom \<Rightarrow> outcome option" where
  "getAncestorByTag this tag d = getAncestorByClassRecursive tag P_tagName (element this) d"

definition getAncestorByClass :: "HTMLElement \<Rightarrow> string \<Rightarrow> dom \<Rightarrow> outcome option" where
  "getAncestorByClass this className d =
     getAncestorByClassRecursive className P_classList (element this) d"

section \<open>The accessors of \<open>id\<close>\<close>

text \<open>
  The getter is \<open>this.element.id || null\<close>: the empty string is the only falsy string.
  The setter is \<open>this.element.id = id ?? ""\<close>.
\<close>

definition get_id :: "HTMLElement \<Rightarrow> dom \<Rightarrow> string option" where
  "get_id this d =
     (let s = id_attr (d (element this)) in if s \<noteq> [] then Some s else None)"

definition set_id :: "HTMLElement \<Rightarrow> string option \<Rightarrow> dom \<Rightarrow> dom" where
  "set_id this ident d =
     d (element this :=
          (d (element this)) \<lparr> id_attr := (case ident of Some s \<Rightarrow> s | None \<Rightarrow> []) \<rparr>)"

section \<open>Finite parent chains\<close>

text \<open>
  The parent chain of an element is finite when following \<open>parentElement\<close> reaches an
  element without a parent. Every element has at most one parent, so a finite chain has
  no cycle.
\<close>

inductive finite_chain :: "dom \<Rightarrow> ref \<Rightarrow> bool" for d :: dom where
  root: "parentElement (d r) = None \<Longrightarrow> finite_chain d r"
| step: "parentElement (d r) = Some p \<Longrightarrow> finite_chain d p \<Longrightarrow> finite_chain d r"

code_pred finite_chain .

section \<open>The search as the specification words it\<close>

text \<open>
  The specification describes the search by a condition kind and a value, and by the
  first element on the chain, the start included, whose attribute matches. The relation
  \<open>spec_ancestor\<close> follows these words and not the source; it is what the embedded
  methods are compared with.
\<close>

datatype condition_kind = ById | ByTag | ByClass

fun spec_matches :: "condition_kind \<Rightarrow> string \<Rightarrow> Element \<Rightarrow> bool" where
  "spec_matches ById v e = (id_attr e = v)"
| "spec_matches ByTag v e = (tagName e = v)"
| "spec_matches ByClass v e = (v \<in> set (classList e))"

inductive spec_ancestor ::
  "dom \<Rightarrow> condition_kind \<Rightarrow> string \<Rightarrow> ref \<Rightarrow> ref option \<Rightarrow> bool"
  for d :: dom and k :: condition_kind and v :: string where
  found: "spec_matches k v (d r) \<Longrightarrow> spec_ancestor d k v r (Some r)"
| absent: "\<not> spec_matches k v (d r) \<Longrightarrow> parentElement (d r) = None \<Longrightarrow>
     spec_ancestor d k v r None"
| up: "\<not> spec_matches k v (d r) \<Longrightarrow> parentElement (d r) = Some p \<Longrightarrow>
     spec_ancestor d k v p res \<Longrightarrow> spec_ancestor d k v r res"

code_pred spec_ancestor .

section \<open>Documents used as examples\<close>

text \<open>
  The document of the README: \<open>html\<close> (0), \<open>body\<close> (1), \<open><div id="my-div">\<close> (2),
  \<open><div class="some-div">\<close> (3), \<open><span>\<close> (4) and \<open><p id="my-leaf">\<close> (5), each the
  child of the one before. Tag names are upper-case, as the platform reports them for
  HTML elements.
\<close>

definition html :: Element where
  "html = \<lparr>id_attr = [], tagName = ''HTML'', classList = [], parentElement = None\<rparr>"

definition readme_dom :: dom where
  "readme_dom =
     (\<lambda>_. html)
       (1 := \<lparr>id_attr = [], tagName = ''BODY'', classList = [], parentElement = Some 0\<rparr>,
        2 := \<lparr>id_attr = ''my-div'', tagName = ''DIV'', classList = [],
              parentElement = Some 1\<rparr>,
        3 := \<lparr>id_attr = [], tagName = ''DIV'', classList = [''some-div''],
              parentElement = Some 2\<rparr>,
        4 := \<lparr>id_attr = [], tagName = ''SPAN'', classList = [], parentElement = Some 3\<rparr>,
        5 := \<lparr>id_attr = ''my-leaf'', tagName = ''P'', classList = [],
              parentElement = Some 4\<rparr>)"

text \<open>
  The chain root (0), A (1), B (2), C (3) with the tag names given as parameters, so
  that both the upper-case names of the platform and the names as written in a test can
  be supplied.
\<close>

definition tag_chain :: "string \<Rightarrow> string \<Rightarrow> string \<Rightarrow> string \<Rightarrow> dom" where
  "tag_chain t0 tA tB tC =
     (\<lambda>_. \<lparr>id_attr = [], tagName = t0, classList = [], parentElement = None\<rparr>)
       (1 := \<lparr>id_attr = [], tagName = tA, classList = [], parentElement = Some 0\<rparr>,
        2 := \<lparr>id_attr = [], tagName = tB, classList = [], parentElement = Some 1\<rparr>,
        3 := \<lparr>id_attr = [], tagName = tC, classList = [], parentElement = Some 2\<rparr>)"

text \<open>An element (1) with the class tokens \<open>foo\<close> and \<open>bar\<close> below a root (0).\<close>

definition foo_bar_dom :: dom where
  "foo_bar_dom =
     (\<lambda>_. html)
       (1 := \<lparr>id_attr = ''x'', tagName = ''DIV'', classList = [''foo'', ''bar''],
              parentElement = Some 0\<rparr>)"

text \<open>
  A store that is not a tree: every element, element 0 included, has element 0 as its
  parent, and no element has a class token.
\<close>

definition loop_dom :: dom where
  "loop_dom =
     (\<lambda>_. \<lparr>id_attr = [], tagName = ''DIV'', classList = [], parentElement = Some 0\<rparr>)"

section \<open>One call of the recursive method, by property\<close>

lemma search_by_id_attr:
  "getAncestorByClassRecursive c P_id r d =
     Some (if id_attr (d r) = c then Inr (Some (HTMLElement r)) else Inl TypeError, d)"
  by (subst getAncestorByClassRecursive.simps) simp

lemma search_by_tagName:
  "getAncestorByClassRecursive c P_tagName r d =
     Some (if tagName (d r) = c then Inr (Some (HTMLElement r)) else Inl TypeError, d)"
  by (subst getAncestorByClassRecursive.simps) simp

lemma search_by_classList:
  "getAncestorByClassRecursive c P_classList r d =
     (if c \<in> set (classList (d r)) then Some (Inr (Some (HTMLElement r)), d)
      else (case parentElement (d r) of
              Some p \<Rightarrow> getAncestorByClassRecursive c P_classList p d
            | None \<Rightarrow> Some (Inr None, d)))"
  by (subst getAncestorByClassRecursive.simps) simp

lemma search_frame:
  assumes "getAncestorByClassRecursive c p r d = Some out"
  shows "snd out = d"
proof (rule getAncestorByClassRecursive.raw_induct
    [where P = "\<lambda>c p r d out. snd out = d", OF _ assms], goal_cases)
  case (1 f c p r d out)
  then show ?case
    by (auto simp: Let_def split: if_splits sum.splits option.splits)
qed

text \<open>
  Unfolding the two relations by one step, which evaluates them on a concrete document.
\<close>

lemma finite_chain_unfold:
  "finite_chain d r =
     (case parentElement (d r) of None \<Rightarrow> True | Some p \<Rightarrow> finite_chain d p)"
  by (subst finite_chain.simps) (auto split: option.splits)

lemma spec_ancestor_unfold:
  "spec_ancestor d k v r res =
     (if spec_matches k v (d r) then res = Some r
      else (case parentElement (d r) of
              None \<Rightarrow> res = None
            | Some p \<Rightarrow> spec_ancestor d k v p res))"
  by (subst spec_ancestor.simps) (auto split: option.splits)

text \<open>
  By class the method does what the specification says: the first element on the chain
  that has the token, or \<open>null\<close> when the chain ends without one.
\<close>

lemma getAncestorByClass_refines_spec:
  "spec_ancestor d ByClass v r res \<Longrightarrow>
   getAncestorByClass (HTMLElement r) v d = Some (Inr (map_option HTMLElement res), d)"
  unfolding getAncestorByClass_def
  by (induction rule: spec_ancestor.induct) (simp_all add: search_by_classList)

text \<open>
  The specification's relation gives a result on every finite chain, so the lemma above
  covers every search by class on a finite chain.
\<close>

lemma spec_ancestor_total:
  "finite_chain d r \<Longrightarrow> \<exists>res. spec_ancestor d k v r res"
proof (induction rule: finite_chain.induct)
  case (root r)
  then show ?case
    by (cases "spec_matches k v (d r)") (auto intro: spec_ancestor.intros)
next
  case (step r p)
  then show ?case
    by (cases "spec_matches k v (d r)") (auto intro: spec_ancestor.intros)
qed

text \<open>
  The method does not defend against a cyclic parent chain: on the cyclic store the
  search by class never returns.
\<close>

lemma search_by_class_runs_forever_on_cycle:
  "getAncestorByClassRecursive c P_classList r loop_dom = None"
proof (cases "getAncestorByClassRecursive c P_classList r loop_dom")
  case None
  then show ?thesis .
next
  case (Some out)
  have False
  proof (rule getAncestorByClassRecursive.raw_induct
      [where P = "\<lambda>c p r d out. p = P_classList \<longrightarrow> d = loop_dom \<longrightarrow> False", OF _ Some,
        THEN mp, THEN mp], goal_cases)
    case (1 f c p r d out)
    show ?case
    proof (intro impI)
      assume "p = P_classList" and "d = loop_dom"
      with 1(2) have "f c P_classList 0 loop_dom = Some out"
        by (simp add: loop_dom_def)
      with 1(1) show False by blast
    qed
  qed simp_all
  then show ?thesis ..
qed

section \<open>The fault on a string attribute that differs\<close>

text \<open>
  Claim C4. When the attribute inspected by \<open>getAncestorById\<close> (the \<open>id\<close>) or by
  \<open>getAncestorByTag\<close> (the \<open>tagName\<close>) of the starting element differs from the searched
  value, the call throws: the first test fails, the second test applies the operator
  \<open>in\<close> to a string primitive, and that is a \<open>TypeError\<close> on this very element. The
  parent is not visited and \<open>null\<close> is not returned.
\<close>

theorem string_mismatch_throws:
  "contains_in (get_property (d (element this)) P_id) = Inl TypeError \<and>
   contains_in (get_property (d (element this)) P_tagName) = Inl TypeError \<and>
   (id_attr (d (element this)) \<noteq> c \<longrightarrow>
      getAncestorById this c d = Some (Inl TypeError, d)) \<and>
   (tagName (d (element this)) \<noteq> c \<longrightarrow>
      getAncestorByTag this c d = Some (Inl TypeError, d))"
  by (simp add: getAncestorById_def getAncestorByTag_def search_by_id_attr search_by_tagName)

theorem string_mismatch_throws_witness:
  "id_attr (readme_dom (element (HTMLElement 5))) \<noteq> ''my-div'' \<and>
   tagName (readme_dom (element (HTMLElement 5))) \<noteq> ''my-div'' \<and>
   getAncestorById (HTMLElement 5) ''my-div'' readme_dom = Some (Inl TypeError, readme_dom) \<and>
   getAncestorByTag (HTMLElement 5) ''my-div'' readme_dom = Some (Inl TypeError, readme_dom)"
proof -
  have h1: "id_attr (readme_dom (element (HTMLElement 5))) \<noteq> ''my-div''"
    by (simp add: readme_dom_def)
  have h2: "tagName (readme_dom (element (HTMLElement 5))) \<noteq> ''my-div''"
    by (simp add: readme_dom_def)
  from string_mismatch_throws [of readme_dom "HTMLElement 5" "''my-div''"] h1 h2
  show ?thesis by blast
qed

section \<open>The search includes the starting element\<close>

text \<open>
  Claim C6. Called on a wrapper \<open>N\<close> whose element has the identifier \<open>x\<close>,
  \<open>getAncestorById\<close> with \<open>x\<close> returns a wrapper of the element of \<open>N\<close>; the same holds
  for the tag name with \<open>getAncestorByTag\<close> and for a class token with
  \<open>getAncestorByClass\<close>. The wrapper returned is a new object around the same element;
  wrappers are values here, so it is equal to \<open>N\<close>.
\<close>

theorem search_includes_start:
  "(id_attr (d (element N)) = x \<longrightarrow>
      getAncestorById N x d = Some (Inr (Some (HTMLElement (element N))), d)) \<and>
   (tagName (d (element N)) = x \<longrightarrow>
      getAncestorByTag N x d = Some (Inr (Some (HTMLElement (element N))), d)) \<and>
   (x \<in> set (classList (d (element N))) \<longrightarrow>
      getAncestorByClass N x d = Some (Inr (Some (HTMLElement (element N))), d)) \<and>
   HTMLElement (element N) = N"
  by (simp add: getAncestorById_def getAncestorByTag_def getAncestorByClass_def
      search_by_id_attr search_by_tagName search_by_classList)

theorem search_includes_start_witness:
  "id_attr (foo_bar_dom (element (HTMLElement 1))) = ''x'' \<and>
   tagName (foo_bar_dom (element (HTMLElement 1))) = ''DIV'' \<and>
   ''bar'' \<in> set (classList (foo_bar_dom (element (HTMLElement 1)))) \<and>
   getAncestorById (HTMLElement 1) ''x'' foo_bar_dom
     = Some (Inr (Some (HTMLElement 1)), foo_bar_dom) \<and>
   getAncestorByTag (HTMLElement 1) ''DIV'' foo_bar_dom
     = Some (Inr (Some (HTMLElement 1)), foo_bar_dom) \<and>
   getAncestorByClass (HTMLElement 1) ''bar'' foo_bar_dom
     = Some (Inr (Some (HTMLElement 1)), foo_bar_dom)"
proof -
  have h1: "id_attr (foo_bar_dom (element (HTMLElement 1))) = ''x''"
    by (simp add: foo_bar_dom_def)
  have h2: "tagName (foo_bar_dom (element (HTMLElement 1))) = ''DIV''"
    by (simp add: foo_bar_dom_def)
  have h3: "''bar'' \<in> set (classList (foo_bar_dom (element (HTMLElement 1))))"
    by (simp add: foo_bar_dom_def)
  from search_includes_start [of foo_bar_dom "HTMLElement 1" "''x''"] h1
  have r1: "getAncestorById (HTMLElement 1) ''x'' foo_bar_dom
     = Some (Inr (Some (HTMLElement 1)), foo_bar_dom)" by simp
  from search_includes_start [of foo_bar_dom "HTMLElement 1" "''DIV''"] h2
  have r2: "getAncestorByTag (HTMLElement 1) ''DIV'' foo_bar_dom
     = Some (Inr (Some (HTMLElement 1)), foo_bar_dom)" by simp
  from search_includes_start [of foo_bar_dom "HTMLElement 1" "''bar''"] h3
  have r3: "getAncestorByClass (HTMLElement 1) ''bar'' foo_bar_dom
     = Some (Inr (Some (HTMLElement 1)), foo_bar_dom)" by simp
  from h1 h2 h3 r1 r2 r3 show ?thesis by blast
qed

section \<open>The search by class\<close>

text \<open>
  Claim C5. On an element whose class tokens are exactly \<open>foo\<close> and \<open>bar\<close>,
  \<open>getAncestorByClass\<close> with \<open>bar\<close> returns that element, and with \<open>baz\<close> it goes on
  with the parent (the result is that of the call on the parent, or \<open>null\<close> when there
  is none). In general the call stops at an element exactly when the searched value is one
  of its class tokens.
\<close>

theorem class_search_matches_token:
  "(set (classList (d (element this))) = {''foo'', ''bar''} \<longrightarrow>
      getAncestorByClass this ''bar'' d = Some (Inr (Some (HTMLElement (element this))), d) \<and>
      getAncestorByClass this ''baz'' d =
        (case parentElement (d (element this)) of
           Some p \<Rightarrow> getAncestorByClass (HTMLElement p) ''baz'' d
         | None \<Rightarrow> Some (Inr None, d))) \<and>
   getAncestorByClass this c d =
     (if c \<in> set (classList (d (element this)))
      then Some (Inr (Some (HTMLElement (element this))), d)
      else (case parentElement (d (element this)) of
              Some p \<Rightarrow> getAncestorByClass (HTMLElement p) c d
            | None \<Rightarrow> Some (Inr None, d)))"
proof -
  have step: "getAncestorByClass this c' d =
     (if c' \<in> set (classList (d (element this)))
      then Some (Inr (Some (HTMLElement (element this))), d)
      else (case parentElement (d (element this)) of
              Some p \<Rightarrow> getAncestorByClass (HTMLElement p) c' d
            | None \<Rightarrow> Some (Inr None, d)))" for c'
    unfolding getAncestorByClass_def
    by (subst search_by_classList) (simp split: option.splits)
  have bar: "getAncestorByClass this ''bar'' d
      = Some (Inr (Some (HTMLElement (element this))), d)"
    if "set (classList (d (element this))) = {''foo'', ''bar''}"
    using that by (subst step) simp
  have baz: "getAncestorByClass this ''baz'' d =
        (case parentElement (d (element this)) of
           Some p \<Rightarrow> getAncestorByClass (HTMLElement p) ''baz'' d
         | None \<Rightarrow> Some (Inr None, d))"
    if "set (classList (d (element this))) = {''foo'', ''bar''}"
    using that by (subst step) simp
  from bar baz step [of c] show ?thesis by blast
qed

theorem class_search_matches_token_witness:
  "set (classList (foo_bar_dom (element (HTMLElement 1)))) = {''foo'', ''bar''} \<and>
   getAncestorByClass (HTMLElement 1) ''bar'' foo_bar_dom
     = Some (Inr (Some (HTMLElement 1)), foo_bar_dom) \<and>
   getAncestorByClass (HTMLElement 1) ''baz'' foo_bar_dom
     = getAncestorByClass (HTMLElement 0) ''baz'' foo_bar_dom"
proof -
  have h: "set (classList (foo_bar_dom (element (HTMLElement 1)))) = {''foo'', ''bar''}"
    by (simp add: foo_bar_dom_def)
  have p: "parentElement (foo_bar_dom (element (HTMLElement 1))) = Some 0"
    by (simp add: foo_bar_dom_def)
  from class_search_matches_token [of foo_bar_dom "HTMLElement 1" "''baz''"] h p
  show ?thesis by simp
qed

section \<open>Termination on finite parent chains\<close>

text \<open>
  Claim C7. From a starting element whose parent chain is finite, the search returns
  (a wrapper, \<open>null\<close> or a thrown error; never the value \<open>None\<close> of a call that runs
  forever), whatever the condition and the property, and so do the three public entry
  points. The proof is by induction on the chain: each recursive call is on the parent,
  and an element without a parent ends the recursion.
\<close>

theorem search_returns_on_finite_chain:
  assumes "finite_chain d (element this)"
  shows "(\<exists>out. getAncestorByClassRecursive condition property (element this) d = Some out) \<and>
         (\<exists>out. getAncestorById this condition d = Some out) \<and>
         (\<exists>out. getAncestorByTag this condition d = Some out) \<and>
         (\<exists>out. getAncestorByClass this condition d = Some out)"
proof -
  have returns: "\<exists>out. getAncestorByClassRecursive condition q r d = Some out"
    if "finite_chain d r" for q r
    using that
  proof (induction rule: finite_chain.induct)
    case (root r)
    then show ?case
      by (cases q) (simp_all add: search_by_id_attr search_by_tagName search_by_classList)
  next
    case (step r p)
    then show ?case
      by (cases q) (simp_all add: search_by_id_attr search_by_tagName search_by_classList)
  qed
  from returns [OF assms] show ?thesis
    unfolding getAncestorById_def getAncestorByTag_def getAncestorByClass_def by blast
qed

theorem search_returns_on_finite_chain_witness:
  "finite_chain readme_dom (element (HTMLElement 5)) \<and>
   (\<exists>out. getAncestorByClass (HTMLElement 5) ''absent'' readme_dom = Some out)"
proof -
  have h: "finite_chain readme_dom (element (HTMLElement 5))"
    by (simp add: finite_chain_unfold readme_dom_def html_def)
  from search_returns_on_finite_chain [OF h, of "''absent''"] h
  show ?thesis by blast
qed

section \<open>The search only reads the document\<close>

text \<open>
  Claim C8. A call that returns, normally or by throwing, leaves the document as it
  found it: no attribute and no parent reference of any element is changed. Hence the same
  call repeated on the document it left gives the same result. The three public entry
  points are the calls with the three values of \<open>property\<close>.
\<close>

theorem search_leaves_document_unchanged:
  assumes "getAncestorByClassRecursive condition property elem d = Some (res, d')"
  shows "d' = d \<and> getAncestorByClassRecursive condition property elem d' = Some (res, d')"
proof -
  from search_frame [OF assms] have "d' = d" by simp
  with assms show ?thesis by simp
qed

theorem search_leaves_document_unchanged_witness:
  "getAncestorByClassRecursive ''some-div'' P_classList 5 readme_dom
     = Some (Inr (Some (HTMLElement 3)), readme_dom) \<and>
   getAncestorByClassRecursive ''some-div'' P_classList 5
     (snd (the (getAncestorByClassRecursive ''some-div'' P_classList 5 readme_dom)))
     = getAncestorByClassRecursive ''some-div'' P_classList 5 readme_dom"
proof -
  have h: "getAncestorByClassRecursive ''some-div'' P_classList 5 readme_dom
     = Some (Inr (Some (HTMLElement 3)), readme_dom)"
    by (simp add: search_by_classList readme_dom_def)
  from search_leaves_document_unchanged [OF h] h show ?thesis by simp
qed

section \<open>The accessors of the identifier\<close>

text \<open>
  Claim C10. The getter of \<open>id\<close> returns \<open>null\<close> exactly when the \<open>id\<close> of the element is
  the empty string, and the string itself otherwise; the setter stores the empty string
  for \<open>null\<close> and the given string otherwise; so a read after writing \<open>null\<close> or the
  empty string returns \<open>null\<close>.
\<close>

theorem id_accessor_normalizes_empty:
  "(get_id this d = None) = (id_attr (d (element this)) = []) \<and>
   (id_attr (d (element this)) \<noteq> [] \<longrightarrow> get_id this d = Some (id_attr (d (element this)))) \<and>
   id_attr (set_id this None d (element this)) = [] \<and>
   id_attr (set_id this (Some s) d (element this)) = s \<and>
   get_id this (set_id this None d) = None \<and>
   get_id this (set_id this (Some []) d) = None"
  by (simp add: get_id_def set_id_def Let_def)

theorem id_accessor_normalizes_empty_witness:
  "id_attr (readme_dom (element (HTMLElement 5))) \<noteq> [] \<and>
   get_id (HTMLElement 5) readme_dom = Some ''my-leaf'' \<and>
   get_id (HTMLElement 4) readme_dom = None \<and>
   get_id (HTMLElement 5) (set_id (HTMLElement 5) None readme_dom) = None"
proof -
  have h: "id_attr (readme_dom (element (HTMLElement 5))) \<noteq> []"
    by (simp add: readme_dom_def)
  have v: "id_attr (readme_dom (element (HTMLElement 5))) = ''my-leaf''"
    by (simp add: readme_dom_def)
  have e: "id_attr (readme_dom (element (HTMLElement 4))) = []"
    by (simp add: readme_dom_def)
  from id_accessor_normalizes_empty [of "HTMLElement 5" readme_dom] h v
  have r1: "get_id (HTMLElement 5) readme_dom = Some ''my-leaf''" by simp
  from id_accessor_normalizes_empty [of "HTMLElement 4" readme_dom] e
  have r2: "get_id (HTMLElement 4) readme_dom = None" by simp
  from id_accessor_normalizes_empty [of "HTMLElement 5" readme_dom]
  have r3: "get_id (HTMLElement 5) (set_id (HTMLElement 5) None readme_dom) = None" by simp
  from h r1 r2 r3 show ?thesis by blast
qed

section \<open>Where the search by id and by tag departs from its description\<close>

text \<open>
  Claim C1 says that the search returns the first element on the chain whose attribute
  matches. On the document of the README, from the leaf \<open><p id="my-leaf">\<close>, the
  specification's first match for the id \<open>my-div\<close> is element 2 and for the tag \<open>SPAN\<close>
  element 4; the methods throw a \<open>TypeError\<close> on the leaf instead, since its own id and
  tag differ from the searched value. By class the method finds element 3, as the claim
  says.
\<close>

theorem readme_search_by_id_and_tag_throws:
  "spec_ancestor readme_dom ById ''my-div'' 5 (Some 2) \<and>
   getAncestorById (HTMLElement 5) ''my-div'' readme_dom = Some (Inl TypeError, readme_dom) \<and>
   spec_ancestor readme_dom ByTag ''SPAN'' 5 (Some 4) \<and>
   getAncestorByTag (HTMLElement 5) ''SPAN'' readme_dom = Some (Inl TypeError, readme_dom) \<and>
   spec_ancestor readme_dom ByClass ''some-div'' 5 (Some 3) \<and>
   getAncestorByClass (HTMLElement 5) ''some-div'' readme_dom
     = Some (Inr (Some (HTMLElement 3)), readme_dom)"
  by (simp add: spec_ancestor_unfold getAncestorById_def getAncestorByTag_def
      getAncestorByClass_def search_by_id_attr search_by_tagName search_by_classList
      readme_dom_def html_def)

text \<open>
  Claim C2 says that a search with no matching element on a finite chain returns \<open>null\<close>
  and never throws. On the document of the README, whose chain from the leaf is finite,
  no element has the id \<open>sidebar\<close> or the tag \<open>SECTION\<close>; both searches from the leaf
  throw a \<open>TypeError\<close>.
\<close>

theorem no_match_by_id_or_tag_throws:
  "finite_chain readme_dom 5 \<and>
   spec_ancestor readme_dom ById ''sidebar'' 5 None \<and>
   getAncestorById (HTMLElement 5) ''sidebar'' readme_dom = Some (Inl TypeError, readme_dom) \<and>
   spec_ancestor readme_dom ByTag ''SECTION'' 5 None \<and>
   getAncestorByTag (HTMLElement 5) ''SECTION'' readme_dom = Some (Inl TypeError, readme_dom)"
  by (simp add: finite_chain_unfold spec_ancestor_unfold getAncestorById_def
      getAncestorByTag_def search_by_id_attr search_by_tagName readme_dom_def html_def)

text \<open>
  Claim C3 is about the chain root, A (\<open>div\<close>), B (\<open>span\<close>), C (\<open>p\<close>) and
  \<open>getAncestorByTag\<close> called on C. With the upper-case tag names of the platform and
  with the names as the claim writes them, and with the searched tag in either casing,
  the call throws a \<open>TypeError\<close> on C, for \<open>div\<close> (where the specification's answer is A)
  as for \<open>section\<close> (where it is \<open>null\<close>).
\<close>

theorem tag_chain_search_throws:
  "getAncestorByTag (HTMLElement 3) ''DIV'' (tag_chain ''HTML'' ''DIV'' ''SPAN'' ''P'')
     = Some (Inl TypeError, tag_chain ''HTML'' ''DIV'' ''SPAN'' ''P'') \<and>
   getAncestorByTag (HTMLElement 3) ''div'' (tag_chain ''HTML'' ''DIV'' ''SPAN'' ''P'')
     = Some (Inl TypeError, tag_chain ''HTML'' ''DIV'' ''SPAN'' ''P'') \<and>
   getAncestorByTag (HTMLElement 3) ''SECTION'' (tag_chain ''HTML'' ''DIV'' ''SPAN'' ''P'')
     = Some (Inl TypeError, tag_chain ''HTML'' ''DIV'' ''SPAN'' ''P'') \<and>
   getAncestorByTag (HTMLElement 3) ''section'' (tag_chain ''HTML'' ''DIV'' ''SPAN'' ''P'')
     = Some (Inl TypeError, tag_chain ''HTML'' ''DIV'' ''SPAN'' ''P'') \<and>
   getAncestorByTag (HTMLElement 3) ''div'' (tag_chain ''html'' ''div'' ''span'' ''p'')
     = Some (Inl TypeError, tag_chain ''html'' ''div'' ''span'' ''p'') \<and>
   getAncestorByTag (HTMLElement 3) ''section'' (tag_chain ''html'' ''div'' ''span'' ''p'')
     = Some (Inl TypeError, tag_chain ''html'' ''div'' ''span'' ''p'') \<and>
   spec_ancestor (tag_chain ''HTML'' ''DIV'' ''SPAN'' ''P'') ByTag ''DIV'' 3 (Some 1) \<and>
   spec_ancestor (tag_chain ''HTML'' ''DIV'' ''SPAN'' ''P'') ByTag ''SECTION'' 3 None"
  by (simp add: spec_ancestor_unfold getAncestorByTag_def search_by_tagName tag_chain_def)

text \<open>
  Claim C9 says that a search from the root with a condition the root does not satisfy
  returns \<open>null\<close>. The root of the document of the README has no parent and matches
  neither the tag \<open>DIV\<close> nor the id \<open>my-div\<close>; both searches throw a \<open>TypeError\<close>. By
  class the search from the root returns \<open>null\<close>.
\<close>

theorem root_search_by_id_or_tag_throws:
  "parentElement (readme_dom 0) = None \<and>
   \<not> spec_matches ByTag ''DIV'' (readme_dom 0) \<and>
   getAncestorByTag (HTMLElement 0) ''DIV'' readme_dom = Some (Inl TypeError, readme_dom) \<and>
   \<not> spec_matches ById ''my-div'' (readme_dom 0) \<and>
   getAncestorById (HTMLElement 0) ''my-div'' readme_dom = Some (Inl TypeError, readme_dom) \<and>
   \<not> spec_matches ByClass ''some-div'' (readme_dom 0) \<and>
   getAncestorByClass (HTMLElement 0) ''some-div'' readme_dom = Some (Inr None, readme_dom)"
  by (simp add: getAncestorById_def getAncestorByTag_def getAncestorByClass_def
      search_by_id_attr search_by_tagName search_by_classList readme_dom_def html_def)

end
